theory Spec2Isabelle
  imports Main
begin

section \<open>Values passed between the scripts and the bridge SDK\<close>

text \<open>
  The two scripts (\<open>token-transfer-payload.ts\<close>, \<open>create-wrapped.ts\<close>) drive an
  external SDK. Chain names, addresses, transaction hashes and signed payloads are
  opaque to the scripts and are kept as strings; amounts are \<open>bigint\<close> base units.
\<close>

type_synonym chain = string
type_synonym txid = string
type_synonym bytes = "nat list"
type_synonym vaa = string
type_synonym attestation_id = string
type_synonym exn = string

text \<open>A \<open>TokenId\<close> is a \<open>{chain, address}\<close> pair and an alias for \<open>ChainAddress\<close>.\<close>

record TokenId =
  chain :: chain
  address :: string

type_synonym ChainAddress = TokenId

record Signer =
  signer_chain :: chain
  signer_address :: string

text \<open>\<open>SignerStuff\<close>: what \<open>getSigner\<close> hands back for a chain.\<close>

record SignerStuff =
  ss_chain :: chain
  signer :: Signer
  ss_address :: ChainAddress

record Delivery =
  automatic :: bool
  nativeGas :: "int option"

text \<open>The \<open>route\<close> parameter of \<open>tokenTransfer\<close>; \<open>delivery\<close> and \<open>payload\<close> are optional.\<close>

record Route =
  token :: TokenId
  amount :: int
  source :: SignerStuff
  destination :: SignerStuff
  delivery :: "Delivery option"
  payload :: "bytes option"

text \<open>
  The seven positional arguments of \<open>wh.tokenTransfer\<close>, which the created
  \<open>TokenTransfer\<close> object keeps as \<open>xfer.transfer\<close>.
\<close>

record TransferDetails =
  td_token :: TokenId
  td_amount :: int
  td_from :: ChainAddress
  td_to :: ChainAddress
  td_automatic :: bool
  td_payload :: "bytes option"
  td_nativeGas :: "int option"

record TokenAmount =
  ta_token :: TokenId
  ta_amount :: int

text \<open>Of a quote the scripts read \<open>destinationToken\<close> only.\<close>

record Quote =
  destinationToken :: TokenAmount

text \<open>
  The \<open>TokenTransfer\<close> object: its details and the ids the three phase calls
  returned (\<open>srcTxids\<close>, \<open>attestIds\<close>, \<open>destTxids\<close> in the script).
\<close>

record TokenTransfer =
  transfer :: TransferDetails
  srcTxids :: "txid list"
  attestIds :: "attestation_id list"
  destTxids :: "txid list"

record TransactionId =
  tx_chain :: chain
  tx_txid :: txid

datatype WormholeMessageId = WormholeMessageId chain string nat

record WrappedAsset =
  wa_chain :: chain
  wa_address :: string

section \<open>Effects: the trace of calls, and errors as values\<close>

text \<open>
  Every call that leaves the script is an event: the SDK calls with their arguments,
  the console lines by their text (the values printed after the text are the ones
  the preceding call returned; line 139 of the transfer script prints a value with
  no text and leaves no event), and the 2000 ms sleep of the polling loop.
\<close>

datatype event =
    NewTokenTransfer TransferDetails
  | QuoteTransfer chain chain TransferDetails
  | InitiateTransfer TransferDetails Signer
  | FetchAttestation TransferDetails nat
  | CompleteTransfer TransferDetails Signer
  | WormholeInit string
  | GetSigner chain "int option"
  | GetTokenBridge chain
  | GetWrappedAsset chain TokenId
  | CreateAttestation chain string ChainAddress
  | SignSendWait chain Signer
  | ParseTransaction chain txid
  | GetVaa "WormholeMessageId option" string nat
  | SubmitAttestation chain vaa ChainAddress
  | Sleep nat
  | Log string

text \<open>
  What a script can throw: a string (\<open>throw "..."\<close>), an \<open>Error\<close> object
  (\<open>throw new Error("...")\<close>), the runtime's \<open>TypeError\<close> on reading a property of
  \<open>undefined\<close>, or whatever an SDK call raised.
\<close>

datatype error =
    ThrowString string
  | ThrowError string
  | TypeError
  | Raised exn

definition InsufficientAmount :: error where
  "InsufficientAmount =
     ThrowString ''The amount requested is too low to cover the fee and any native gas requested.''"

definition VaaNotFound :: error where
  "VaaNotFound = ThrowError ''VAA not found after retries exhausted. Try extending the timeout.''"

text \<open>
  A computation reads the history of events so far (an SDK call may answer
  differently each time). If it returns, it yields its outcome (a value, or the
  error thrown) with the events it added; \<open>None\<close> is a run that never returns.
\<close>

type_synonym 'a io = "event list \<Rightarrow> ((error + 'a) \<times> event list) option"

definition ret :: "'a \<Rightarrow> 'a io" where
  "ret x h = Some (Inr x, [])"

definition throw :: "error \<Rightarrow> 'a io" where
  "throw e h = Some (Inl e, [])"

definition emit :: "event \<Rightarrow> unit io" where
  "emit ev h = Some (Inr (), [ev])"

definition log :: "string \<Rightarrow> unit io" where
  "log s = emit (Log s)"

text \<open>An SDK call: the event is recorded, the answer is the SDK's, a rejection propagates.\<close>

definition call :: "event \<Rightarrow> (event list \<Rightarrow> exn + 'a) \<Rightarrow> 'a io" where
  "call ev answer h =
     (case answer h of Inl x \<Rightarrow> Some (Inl (Raised x), [ev]) | Inr v \<Rightarrow> Some (Inr v, [ev]))"

text \<open>Sequencing, as \<open>await\<close> and \<open>;\<close> do: an error ends the run where it is thrown.\<close>

definition await :: "'a io \<Rightarrow> ('a \<Rightarrow> 'b io) \<Rightarrow> 'b io" where
  "await m f h =
     (case m h of
        None \<Rightarrow> None
      | Some (Inl e, es) \<Rightarrow> Some (Inl e, es)
      | Some (Inr x, es) \<Rightarrow>
          (case f x (h @ es) of None \<Rightarrow> None | Some (r, es') \<Rightarrow> Some (r, es @ es')))"

text \<open>\<open>try { ... } catch (e) { ... }\<close>: the outcome of the body becomes a value.\<close>

definition attempt :: "'a io \<Rightarrow> (error + 'a) io" where
  "attempt m h = (case m h of None \<Rightarrow> None | Some (r, es) \<Rightarrow> Some (Inr r, es))"

section \<open>\<open>tokenTransfer\<close> (token-transfer-payload.ts, lines 107-173)\<close>

text \<open>The SDK as \<open>tokenTransfer\<close> uses it; each answer may depend on the history.\<close>

record transfer_sdk =
  wh_tokenTransfer :: "event list \<Rightarrow> TransferDetails \<Rightarrow> exn + unit"
  quoteTransfer :: "event list \<Rightarrow> chain \<Rightarrow> chain \<Rightarrow> TransferDetails \<Rightarrow> exn + Quote"
  initiateTransfer :: "event list \<Rightarrow> TransferDetails \<Rightarrow> Signer \<Rightarrow> exn + txid list"
  fetchAttestation :: "event list \<Rightarrow> TransferDetails \<Rightarrow> nat \<Rightarrow> exn + attestation_id list"
  completeTransfer :: "event list \<Rightarrow> TransferDetails \<Rightarrow> Signer \<Rightarrow> exn + txid list"

text \<open>\<open>route.delivery?.automatic\<close>: \<open>undefined\<close> (falsy) when \<open>delivery\<close> is absent.\<close>

definition route_automatic :: "Route \<Rightarrow> bool" where
  "route_automatic route = (case delivery route of None \<Rightarrow> False | Some d \<Rightarrow> automatic d)"

text \<open>\<open>route.delivery?.nativeGas\<close>.\<close>

definition route_nativeGas :: "Route \<Rightarrow> int option" where
  "route_nativeGas route = (case delivery route of None \<Rightarrow> None | Some d \<Rightarrow> nativeGas d)"

text \<open>Lines 123-131: the arguments handed to \<open>wh.tokenTransfer\<close>.\<close>

definition details :: "Route \<Rightarrow> TransferDetails" where
  "details route =
     \<lparr> td_token = token route,
       td_amount = amount route,
       td_from = ss_address (source route),
       td_to = ss_address (destination route),
       td_automatic = route_automatic route,
       td_payload = payload route,
       td_nativeGas = route_nativeGas route \<rparr>"

text \<open>Lines 165-172: the route of the recursive call, \<open>{...route, token, amount, source, destination}\<close>.\<close>

definition second_leg :: "Route \<Rightarrow> Quote \<Rightarrow> Route" where
  "second_leg route quote =
     route \<lparr> token := ta_token (destinationToken quote),
             amount := ta_amount (destinationToken quote),
             source := destination route,
             destination := source route \<rparr>"

function tokenTransfer :: "transfer_sdk \<Rightarrow> Route \<Rightarrow> bool option \<Rightarrow> TokenTransfer io" where
  "tokenTransfer sdk route roundTrip =
     await (call (NewTokenTransfer (details route)) (\<lambda>h. wh_tokenTransfer sdk h (details route)))
       (\<lambda>_.
     let xfer = \<lparr> transfer = details route, srcTxids = [], attestIds = [], destTxids = [] \<rparr> in
     await (call (QuoteTransfer (ss_chain (source route)) (ss_chain (destination route)) (transfer xfer))
              (\<lambda>h. quoteTransfer sdk h (ss_chain (source route)) (ss_chain (destination route))
                      (transfer xfer)))
       (\<lambda>quote.
     if td_automatic (transfer xfer) \<and> ta_amount (destinationToken quote) < 0
     then throw InsufficientAmount
     else
     await (log ''Starting transfer'') (\<lambda>_.
     await (call (InitiateTransfer (transfer xfer) (signer (source route)))
              (\<lambda>h. initiateTransfer sdk h (transfer xfer) (signer (source route))))
       (\<lambda>srcTxids'.
     let xfer = xfer \<lparr> srcTxids := srcTxids' \<rparr> in
     await (log ''Started transfer: '') (\<lambda>_.
     if route_automatic route then ret xfer
     else
     await (log ''Getting Attestation'') (\<lambda>_.
     await (call (FetchAttestation (transfer xfer) 60000)
              (\<lambda>h. fetchAttestation sdk h (transfer xfer) 60000))
       (\<lambda>attestIds'.
     let xfer = xfer \<lparr> attestIds := attestIds' \<rparr> in
     await (log ''Got Attestation: '') (\<lambda>_.
     await (log ''Completing Transfer'') (\<lambda>_.
     await (call (CompleteTransfer (transfer xfer) (signer (destination route)))
              (\<lambda>h. completeTransfer sdk h (transfer xfer) (signer (destination route))))
       (\<lambda>destTxids'.
     let xfer = xfer \<lparr> destTxids := destTxids' \<rparr> in
     await (log ''Completed Transfer: '') (\<lambda>_.
     if roundTrip \<noteq> Some True then ret xfer
     else tokenTransfer sdk (second_leg route quote) None)))))))))))"
  by pat_completeness auto
termination
  by (relation "measure (\<lambda>(sdk, route, roundTrip). if roundTrip = Some True then 1 else 0)")
     simp_all

declare tokenTransfer.simps [simp del]

section \<open>The attestation script (create-wrapped.ts, lines 8-104)\<close>

text \<open>
  The SDK and the \<open>getSigner\<close> helper as the script uses them. \<open>getVaa\<close> takes
  a message id and answers \<open>null\<close> (\<open>None\<close>) when the timeout passes with no
  payload. \<open>createAttestation\<close> and \<open>submitAttestation\<close> build the transactions
  that \<open>signSendWait\<close> then signs and sends.
\<close>

record attest_sdk =
  wormhole :: "event list \<Rightarrow> string \<Rightarrow> exn + unit"
  getSigner :: "event list \<Rightarrow> chain \<Rightarrow> int option \<Rightarrow> exn + Signer"
  getTokenBridge :: "event list \<Rightarrow> chain \<Rightarrow> exn + unit"
  getWrappedAsset :: "event list \<Rightarrow> chain \<Rightarrow> TokenId \<Rightarrow> exn + string"
  signSendWait :: "event list \<Rightarrow> chain \<Rightarrow> Signer \<Rightarrow> exn + TransactionId list"
  parseTransaction :: "event list \<Rightarrow> chain \<Rightarrow> txid \<Rightarrow> exn + WormholeMessageId list"
  getVaa :: "event list \<Rightarrow> WormholeMessageId \<Rightarrow> string \<Rightarrow> nat \<Rightarrow> exn + vaa option"

definition origChain :: chain where
  "origChain = ''Avalanche''"

definition destChain :: chain where
  "destChain = ''Solana''"

definition tokenId :: TokenId where
  "tokenId = \<lparr> chain = origChain, address = ''0xE66b9BBB3DFf4d4444F7Dbb6c7BB4a110d1d91a3'' \<rparr>"

definition gasLimit :: int where
  "gasLimit = 2500000"

definition timeout :: nat where
  "timeout = 25 * 60 * 1000"

text \<open>\<open>Wormhole.parseAddress(signer.chain(), signer.address())\<close>.\<close>

definition parseAddress :: "Signer \<Rightarrow> ChainAddress" where
  "parseAddress s = \<lparr> chain = signer_chain s, address = signer_address s \<rparr>"

text \<open>
  \<open>xs[0]\<close>: \<open>undefined\<close> on an empty array; the \<open>!\<close> after it is erased by
  the compiler. Reading a property of \<open>undefined\<close> throws a \<open>TypeError\<close>.
\<close>

definition first_of :: "'a list \<Rightarrow> 'a option" where
  "first_of xs = (case xs of [] \<Rightarrow> None | x # _ \<Rightarrow> Some x)"

text \<open>
  Modelled from the spec: the attestation lookup
  \<open>fetch(messageId, messageType, timeoutMillis)\<close> takes a message identifier; the
  SDK function behind it, \<open>wh.getVaa\<close>, is not part of the scripts. The call of
  line 67, \<open>wh.getVaa(msgs[0]!, "TokenBridge:AttestMeta", timeout)\<close>, hands it
  \<open>msgs[0]\<close>, asserted to be a message id. On an empty \<open>msgs\<close> the call is made
  with \<open>undefined\<close> and ends in a \<open>TypeError\<close> when the id is read.
\<close>

definition wh_getVaa ::
  "attest_sdk \<Rightarrow> WormholeMessageId option \<Rightarrow> string \<Rightarrow> nat \<Rightarrow> vaa option io" where
  "wh_getVaa sdk key ty t =
     (case key of
        None \<Rightarrow> await (emit (GetVaa None ty t)) (\<lambda>_. throw TypeError)
      | Some msg \<Rightarrow> call (GetVaa (Some msg) ty t) (\<lambda>h. getVaa sdk h msg ty t))"

text \<open>One round of the polling loop that found nothing (lines 93-99).\<close>

definition retry_events :: "event list" where
  "retry_events =
     [GetWrappedAsset destChain tokenId,
      Log ''Wrapped asset not found yet. Retrying...'',
      Log ''Waiting before checking again...'',
      Sleep 2000]"

text \<open>
  Lines 90-101, \<open>do { try { return lookup } catch { } sleep } while (true)\<close>:
  the \<open>catch\<close> swallows whatever the lookup raised, so the loop returns the
  wrapped asset or does not return.
\<close>

partial_function (option) waitForIt :: "attest_sdk \<Rightarrow> WrappedAsset io" where
  "waitForIt sdk h =
     (case getWrappedAsset sdk h destChain tokenId of
        Inr wrapped \<Rightarrow>
          Some (Inr \<lparr> wa_chain = destChain, wa_address = wrapped \<rparr>,
                [GetWrappedAsset destChain tokenId])
      | Inl e \<Rightarrow>
          Option.bind (waitForIt sdk (h @ retry_events))
            (\<lambda>(r, es). Some (r, retry_events @ es)))"

text \<open>
  The body of the script. It returns the wrapped asset when the token is already
  registered (line 38) and \<open>undefined\<close> (\<open>None\<close>) at its end; the trailing
  \<open>.catch\<close> only prints the error thrown.
\<close>

definition createWrapped :: "attest_sdk \<Rightarrow> WrappedAsset option io" where
  "createWrapped sdk =
     await (call (WormholeInit ''Testnet'') (\<lambda>h. wormhole sdk h ''Testnet'')) (\<lambda>_.
     await (log (''token ID for '' @ origChain @ '': '')) (\<lambda>_.
     await (call (GetSigner destChain (Some gasLimit))
              (\<lambda>h. getSigner sdk h destChain (Some gasLimit))) (\<lambda>destSigner.
     await (call (GetTokenBridge destChain) (\<lambda>h. getTokenBridge sdk h destChain)) (\<lambda>_.
     await (attempt (call (GetWrappedAsset destChain tokenId)
                       (\<lambda>h. getWrappedAsset sdk h destChain tokenId))) (\<lambda>found.
     case found of
       Inr wrapped \<Rightarrow>
         await (log (''Token already wrapped on '' @ destChain @ ''. Skipping attestation.''))
           (\<lambda>_. ret (Some \<lparr> wa_chain = destChain, wa_address = wrapped \<rparr>))
     | Inl e \<Rightarrow>
     await (log (''No wrapped token found on '' @ destChain @ ''. Proceeding with attestation.''))
       (\<lambda>_.
     await (call (GetSigner origChain None) (\<lambda>h. getSigner sdk h origChain None)) (\<lambda>origSigner.
     await (call (GetTokenBridge origChain) (\<lambda>h. getTokenBridge sdk h origChain)) (\<lambda>_.
     await (emit (CreateAttestation origChain (address tokenId) (parseAddress origSigner))) (\<lambda>_.
     await (call (SignSendWait origChain origSigner)
              (\<lambda>h. signSendWait sdk h origChain origSigner)) (\<lambda>txids.
     await (log ''txids: '') (\<lambda>_.
     case first_of txids of
       None \<Rightarrow> throw TypeError
     | Some first_tx \<Rightarrow>
     let txid = tx_txid first_tx in
     await (log ''Created attestation (save this): '') (\<lambda>_.
     await (call (ParseTransaction origChain txid)
              (\<lambda>h. parseTransaction sdk h origChain txid)) (\<lambda>msgs.
     await (log ''Parsed Messages:'') (\<lambda>_.
     await (wh_getVaa sdk (first_of msgs) ''TokenBridge:AttestMeta'' timeout) (\<lambda>vaa.
     case vaa of
       None \<Rightarrow> throw VaaNotFound
     | Some vaa \<Rightarrow>
     await (log ''Token Address: '') (\<lambda>_.
     await (log ''Attesting asset on destination chain...'') (\<lambda>_.
     await (emit (SubmitAttestation destChain vaa (parseAddress destSigner))) (\<lambda>_.
     await (call (SignSendWait destChain destSigner)
              (\<lambda>h. signSendWait sdk h destChain destSigner)) (\<lambda>tsx.
     await (log ''Transaction hash: '') (\<lambda>_.
     await (waitForIt sdk) (\<lambda>wrapped.
     await (log ''Wrapped Asset: '') (\<lambda>_.
     ret None))))))))))))))))))))))"

section \<open>Reading the trace of a transfer\<close>

text \<open>A call of \<open>tokenTransfer\<close> starts by creating its transfer object (line 123).\<close>

fun is_transfer_start :: "event \<Rightarrow> bool" where
  "is_transfer_start (NewTokenTransfer _) = True"
| "is_transfer_start _ = False"

text \<open>Steps 2 and 3 of a manual transfer (lines 154 and 159).\<close>

fun is_redeem_step :: "event \<Rightarrow> bool" where
  "is_redeem_step (FetchAttestation _ _) = True"
| "is_redeem_step (CompleteTransfer _ _) = True"
| "is_redeem_step _ = False"

text \<open>The calls that sign and send transactions to a chain.\<close>

fun is_submission :: "event \<Rightarrow> bool" where
  "is_submission (InitiateTransfer _ _) = True"
| "is_submission (CompleteTransfer _ _) = True"
| "is_submission (SignSendWait _ _) = True"
| "is_submission _ = False"

fun is_attestation_step :: "event \<Rightarrow> bool" where
  "is_attestation_step (CreateAttestation _ _ _) = True"
| "is_attestation_step (SubmitAttestation _ _ _) = True"
| "is_attestation_step _ = False"

text \<open>
  \<open>quoted_first q es\<close> scans a trace: \<open>q\<close> holds the details quoted since the last
  transfer object was created, and a source-chain submission is accepted only for
  details that have been quoted.
\<close>

fun quoted_first :: "TransferDetails option \<Rightarrow> event list \<Rightarrow> bool" where
  "quoted_first q [] = True"
| "quoted_first q (NewTokenTransfer d # es) = quoted_first None es"
| "quoted_first q (QuoteTransfer s t d # es) = quoted_first (Some d) es"
| "quoted_first q (InitiateTransfer d sg # es) = (q = Some d \<and> quoted_first q es)"
| "quoted_first q (e # es) = quoted_first q es"

text \<open>
  The history a run of \<open>tokenTransfer\<close> has added when it reaches each SDK call,
  and what the SDK answers there for a run started at history \<open>h\<close>.
\<close>

definition before_quote :: "Route \<Rightarrow> event list" where
  "before_quote route = [NewTokenTransfer (details route)]"

definition before_initiate :: "Route \<Rightarrow> event list" where
  "before_initiate route =
     before_quote route @
     [QuoteTransfer (ss_chain (source route)) (ss_chain (destination route)) (details route),
      Log ''Starting transfer'']"

definition before_fetch :: "Route \<Rightarrow> event list" where
  "before_fetch route =
     before_initiate route @
     [InitiateTransfer (details route) (signer (source route)),
      Log ''Started transfer: '',
      Log ''Getting Attestation'']"

definition before_complete :: "Route \<Rightarrow> event list" where
  "before_complete route =
     before_fetch route @
     [FetchAttestation (details route) 60000,
      Log ''Got Attestation: '',
      Log ''Completing Transfer'']"

definition completed_events :: "Route \<Rightarrow> event list" where
  "completed_events route =
     before_complete route @
     [CompleteTransfer (details route) (signer (destination route)),
      Log ''Completed Transfer: '']"

definition new_answer :: "transfer_sdk \<Rightarrow> Route \<Rightarrow> event list \<Rightarrow> exn + unit" where
  "new_answer sdk route h = wh_tokenTransfer sdk h (details route)"

definition quote_answer :: "transfer_sdk \<Rightarrow> Route \<Rightarrow> event list \<Rightarrow> exn + Quote" where
  "quote_answer sdk route h =
     quoteTransfer sdk (h @ before_quote route)
       (ss_chain (source route)) (ss_chain (destination route)) (details route)"

definition initiate_answer :: "transfer_sdk \<Rightarrow> Route \<Rightarrow> event list \<Rightarrow> exn + txid list" where
  "initiate_answer sdk route h =
     initiateTransfer sdk (h @ before_initiate route) (details route) (signer (source route))"

definition fetch_answer :: "transfer_sdk \<Rightarrow> Route \<Rightarrow> event list \<Rightarrow> exn + attestation_id list" where
  "fetch_answer sdk route h = fetchAttestation sdk (h @ before_fetch route) (details route) 60000"

definition complete_answer :: "transfer_sdk \<Rightarrow> Route \<Rightarrow> event list \<Rightarrow> exn + txid list" where
  "complete_answer sdk route h =
     completeTransfer sdk (h @ before_complete route) (details route) (signer (destination route))"

text \<open>The run gets as far as submitting to the source chain (line 146).\<close>

definition reaches_initiate :: "transfer_sdk \<Rightarrow> Route \<Rightarrow> event list \<Rightarrow> bool" where
  "reaches_initiate sdk route h =
     (case new_answer sdk route h of
        Inl _ \<Rightarrow> False
      | Inr _ \<Rightarrow>
          (case quote_answer sdk route h of
             Inl _ \<Rightarrow> False
           | Inr q \<Rightarrow> \<not> (route_automatic route \<and> ta_amount (destinationToken q) < 0)))"

text \<open>All three steps of a manual transfer go through, with quote \<open>q\<close>.\<close>

definition completes_with :: "transfer_sdk \<Rightarrow> Route \<Rightarrow> event list \<Rightarrow> Quote \<Rightarrow> bool" where
  "completes_with sdk route h q =
     (\<not> route_automatic route \<and>
      \<not> isl (new_answer sdk route h) \<and>
      quote_answer sdk route h = Inr q \<and>
      \<not> isl (initiate_answer sdk route h) \<and>
      \<not> isl (fetch_answer sdk route h) \<and>
      \<not> isl (complete_answer sdk route h))"

section \<open>Reading the trace of the attestation script\<close>

fun is_vaa_lookup :: "event \<Rightarrow> bool" where
  "is_vaa_lookup (GetVaa _ _ _) = True"
| "is_vaa_lookup _ = False"

text \<open>\<open>polls n\<close>: \<open>n\<close> rounds of the polling loop that found nothing.\<close>

fun polls :: "nat \<Rightarrow> event list" where
  "polls 0 = []"
| "polls (Suc n) = retry_events @ polls n"

text \<open>The lookup of the \<open>n\<close>-th round (counted from 0) of a loop started at \<open>h\<close>.\<close>

definition poll_answer :: "attest_sdk \<Rightarrow> event list \<Rightarrow> nat \<Rightarrow> exn + string" where
  "poll_answer sdk h n = getWrappedAsset sdk (h @ polls n) destChain tokenId"

text \<open>
  The history the script has added when it reaches each call, and the SDK's answer
  there for a run started at \<open>h\<close>; \<open>os\<close> and \<open>ds\<close> are the signers of the origin and
  of the destination chain.
\<close>

definition before_dest_signer :: "event list" where
  "before_dest_signer = [WormholeInit ''Testnet'', Log (''token ID for '' @ origChain @ '': '')]"

definition before_lookup :: "event list" where
  "before_lookup =
     before_dest_signer @ [GetSigner destChain (Some gasLimit), GetTokenBridge destChain]"

definition before_orig_signer :: "event list" where
  "before_orig_signer =
     before_lookup @
     [GetWrappedAsset destChain tokenId,
      Log (''No wrapped token found on '' @ destChain @ ''. Proceeding with attestation.'')]"

definition before_attest_send :: "Signer \<Rightarrow> event list" where
  "before_attest_send os =
     before_orig_signer @
     [GetSigner origChain None,
      GetTokenBridge origChain,
      CreateAttestation origChain (address tokenId) (parseAddress os)]"

definition before_parse :: "Signer \<Rightarrow> event list" where
  "before_parse os =
     before_attest_send os @
     [SignSendWait origChain os, Log ''txids: '', Log ''Created attestation (save this): '']"

definition before_vaa :: "Signer \<Rightarrow> txid \<Rightarrow> event list" where
  "before_vaa os txid =
     before_parse os @ [ParseTransaction origChain txid, Log ''Parsed Messages:'']"

definition before_submit_send ::
  "Signer \<Rightarrow> Signer \<Rightarrow> txid \<Rightarrow> WormholeMessageId option \<Rightarrow> vaa \<Rightarrow> event list" where
  "before_submit_send ds os txid key v =
     before_vaa os txid @
     [GetVaa key ''TokenBridge:AttestMeta'' timeout,
      Log ''Token Address: '',
      Log ''Attesting asset on destination chain...'',
      SubmitAttestation destChain v (parseAddress ds)]"

definition before_poll ::
  "Signer \<Rightarrow> Signer \<Rightarrow> txid \<Rightarrow> WormholeMessageId option \<Rightarrow> vaa \<Rightarrow> event list" where
  "before_poll ds os txid key v =
     before_submit_send ds os txid key v @ [SignSendWait destChain ds, Log ''Transaction hash: '']"

definition lookup_answer :: "attest_sdk \<Rightarrow> event list \<Rightarrow> exn + string" where
  "lookup_answer sdk h = getWrappedAsset sdk (h @ before_lookup) destChain tokenId"

definition attest_send_answer ::
  "attest_sdk \<Rightarrow> event list \<Rightarrow> Signer \<Rightarrow> exn + TransactionId list" where
  "attest_send_answer sdk h os = signSendWait sdk (h @ before_attest_send os) origChain os"

definition parse_answer ::
  "attest_sdk \<Rightarrow> event list \<Rightarrow> Signer \<Rightarrow> txid \<Rightarrow> exn + WormholeMessageId list" where
  "parse_answer sdk h os txid = parseTransaction sdk (h @ before_parse os) origChain txid"

definition vaa_answer ::
  "attest_sdk \<Rightarrow> event list \<Rightarrow> Signer \<Rightarrow> txid \<Rightarrow> WormholeMessageId \<Rightarrow> exn + vaa option" where
  "vaa_answer sdk h os txid key =
     getVaa sdk (h @ before_vaa os txid) key ''TokenBridge:AttestMeta'' timeout"

definition submit_send_answer ::
  "attest_sdk \<Rightarrow> event list \<Rightarrow> Signer \<Rightarrow> Signer \<Rightarrow> txid \<Rightarrow> WormholeMessageId option \<Rightarrow> vaa
     \<Rightarrow> exn + TransactionId list" where
  "submit_send_answer sdk h ds os txid key v =
     signSendWait sdk (h @ before_submit_send ds os txid key v) destChain ds"

text \<open>The script gets as far as the wrapped-asset lookup of line 33, with signer \<open>ds\<close>.\<close>

definition reaches_lookup :: "attest_sdk \<Rightarrow> event list \<Rightarrow> Signer \<Rightarrow> bool" where
  "reaches_lookup sdk h ds =
     (\<not> isl (wormhole sdk h ''Testnet'') \<and>
      getSigner sdk (h @ before_dest_signer) destChain (Some gasLimit) = Inr ds \<and>
      \<not> isl (getTokenBridge sdk (h @ before_dest_signer @ [GetSigner destChain (Some gasLimit)])
                destChain))"

text \<open>
  The lookup finds nothing and the script gets as far as sending the attestation
  transaction (line 56), with origin signer \<open>os\<close>.
\<close>

definition reaches_attest_send :: "attest_sdk \<Rightarrow> event list \<Rightarrow> Signer \<Rightarrow> Signer \<Rightarrow> bool" where
  "reaches_attest_send sdk h ds os =
     (reaches_lookup sdk h ds \<and>
      isl (lookup_answer sdk h) \<and>
      getSigner sdk (h @ before_orig_signer) origChain None = Inr os \<and>
      \<not> isl (getTokenBridge sdk (h @ before_orig_signer @ [GetSigner origChain None]) origChain))"

section \<open>Sample collaborators\<close>

definition avalanche_signer :: SignerStuff where
  "avalanche_signer =
     \<lparr> ss_chain = ''Avalanche'',
       signer = \<lparr> signer_chain = ''Avalanche'', signer_address = ''0xA11ce'' \<rparr>,
       ss_address = \<lparr> chain = ''Avalanche'', address = ''0xA11ce'' \<rparr> \<rparr>"

definition solana_signer :: SignerStuff where
  "solana_signer =
     \<lparr> ss_chain = ''Solana'',
       signer = \<lparr> signer_chain = ''Solana'', signer_address = ''B0b'' \<rparr>,
       ss_address = \<lparr> chain = ''Solana'', address = ''B0b'' \<rparr> \<rparr>"

text \<open>The route of the script (lines 79-93) for a given amount and delivery mode.\<close>

definition sample_route :: "int \<Rightarrow> bool \<Rightarrow> Route" where
  "sample_route amt auto =
     \<lparr> token = tokenId,
       amount = amt,
       source = avalanche_signer,
       destination = solana_signer,
       delivery = Some \<lparr> automatic = auto, nativeGas = (if auto then Some 1000000 else None) \<rparr>,
       payload = Some [72, 101, 108, 108, 111, 32, 87, 111, 114, 108, 100, 33] \<rparr>"

definition sample_quote :: "int \<Rightarrow> TransferDetails \<Rightarrow> Quote" where
  "sample_quote fee d =
     \<lparr> destinationToken =
         \<lparr> ta_token = \<lparr> chain = chain (td_to d), address = ''wrapped'' \<rparr>,
           ta_amount = (if td_automatic d then td_amount d - fee else td_amount d) \<rparr> \<rparr>"

text \<open>An SDK that accepts every call and charges the relayer fee on automatic transfers.\<close>

definition sample_sdk :: "int \<Rightarrow> transfer_sdk" where
  "sample_sdk fee =
     \<lparr> wh_tokenTransfer = (\<lambda>h d. Inr ()),
       quoteTransfer = (\<lambda>h s t d. Inr (sample_quote fee d)),
       initiateTransfer = (\<lambda>h d sg. Inr [''0xsrc'']),
       fetchAttestation = (\<lambda>h d t. Inr [''vaa'']),
       completeTransfer = (\<lambda>h d sg. Inr [''0xdst'']) \<rparr>"

text \<open>An automatic transfer with no payload and no native gas top-up.\<close>

definition automatic_route :: "int \<Rightarrow> Route" where
  "automatic_route amt =
     \<lparr> token = tokenId,
       amount = amt,
       source = avalanche_signer,
       destination = solana_signer,
       delivery = Some \<lparr> automatic = True, nativeGas = None \<rparr>,
       payload = None \<rparr>"

text \<open>The same SDK, except that the source-chain submission returns no transaction id.\<close>

definition no_id_sdk :: "int \<Rightarrow> transfer_sdk" where
  "no_id_sdk fee = (sample_sdk fee) \<lparr> initiateTransfer := (\<lambda>h d sg. Inr []) \<rparr>"

fun is_sleep :: "event \<Rightarrow> bool" where
  "is_sleep (Sleep _) = True"
| "is_sleep _ = False"

text \<open>The wrapped asset shows up once the script has slept \<open>k\<close> times.\<close>

definition registered_after :: "nat \<Rightarrow> event list \<Rightarrow> exn + string" where
  "registered_after k h =
     (if k \<le> length (filter is_sleep h) then Inr ''wrapped'' else Inl ''not found'')"

definition never_registered :: "event list \<Rightarrow> exn + string" where
  "never_registered h = Inl ''not found''"

text \<open>
  An attestation SDK with a given lookup, given results of sending and parsing the
  attestation transaction, and a given answer of \<open>getVaa\<close>.
\<close>

definition sample_attest_sdk ::
  "(event list \<Rightarrow> exn + string) \<Rightarrow> TransactionId list \<Rightarrow> WormholeMessageId list \<Rightarrow> vaa option
     \<Rightarrow> attest_sdk" where
  "sample_attest_sdk lookup txs msgs v =
     \<lparr> wormhole = (\<lambda>h n. Inr ()),
       getSigner = (\<lambda>h c g. Inr \<lparr> signer_chain = c, signer_address = ''key'' \<rparr>),
       getTokenBridge = (\<lambda>h c. Inr ()),
       getWrappedAsset = (\<lambda>h c t. lookup h),
       signSendWait = (\<lambda>h c sg. if c = origChain then Inr txs
                                 else Inr [\<lparr> tx_chain = c, tx_txid = ''0xsubmit'' \<rparr>]),
       parseTransaction = (\<lambda>h c t. Inr msgs),
       getVaa = (\<lambda>h key ty t. Inr v) \<rparr>"

section \<open>One call of \<open>tokenTransfer\<close>, path by path\<close>

lemmas io_defs = await_def call_def log_def emit_def ret_def throw_def attempt_def

lemmas transfer_answer_defs = new_answer_def quote_answer_def initiate_answer_def
  fetch_answer_def complete_answer_def before_quote_def before_initiate_def before_fetch_def
  before_complete_def completed_events_def

lemma td_automatic_details [simp]: "td_automatic (details route) = route_automatic route"
  by (simp add: details_def)

lemma run_new_rejected:
  assumes "new_answer sdk route h = Inl x"
  shows "tokenTransfer sdk route rt h = Some (Inl (Raised x), before_quote route)"
  using assms
  by (subst tokenTransfer.simps) (simp add: io_defs transfer_answer_defs)

lemma run_quote_rejected:
  assumes "new_answer sdk route h = Inr u" and "quote_answer sdk route h = Inl x"
  shows "tokenTransfer sdk route rt h =
           Some (Inl (Raised x),
                 before_quote route @
                 [QuoteTransfer (ss_chain (source route)) (ss_chain (destination route))
                    (details route)])"
  using assms
  by (subst tokenTransfer.simps) (simp add: io_defs transfer_answer_defs Let_def)

lemma run_insufficient:
  assumes "new_answer sdk route h = Inr u" and "quote_answer sdk route h = Inr q"
    and "route_automatic route" and "ta_amount (destinationToken q) < 0"
  shows "tokenTransfer sdk route rt h =
           Some (Inl InsufficientAmount,
                 before_quote route @
                 [QuoteTransfer (ss_chain (source route)) (ss_chain (destination route))
                    (details route)])"
  using assms
  by (subst tokenTransfer.simps) (simp add: io_defs transfer_answer_defs Let_def)

lemma run_initiate_rejected:
  assumes "new_answer sdk route h = Inr u" and "quote_answer sdk route h = Inr q"
    and "\<not> (route_automatic route \<and> ta_amount (destinationToken q) < 0)"
    and "initiate_answer sdk route h = Inl x"
  shows "tokenTransfer sdk route rt h =
           Some (Inl (Raised x),
                 before_initiate route @
                 [InitiateTransfer (details route) (signer (source route))])"
  using assms
  by (subst tokenTransfer.simps) (simp add: io_defs transfer_answer_defs Let_def)

lemma run_automatic:
  assumes "new_answer sdk route h = Inr u" and "quote_answer sdk route h = Inr q"
    and "route_automatic route" and "\<not> ta_amount (destinationToken q) < 0"
    and "initiate_answer sdk route h = Inr txs"
  shows "tokenTransfer sdk route rt h =
           Some (Inr \<lparr> transfer = details route, srcTxids = txs, attestIds = [],
                       destTxids = [] \<rparr>,
                 before_initiate route @
                 [InitiateTransfer (details route) (signer (source route)),
                  Log ''Started transfer: ''])"
  using assms
  by (subst tokenTransfer.simps) (simp add: io_defs transfer_answer_defs Let_def)

lemma run_fetch_rejected:
  assumes "new_answer sdk route h = Inr u" and "quote_answer sdk route h = Inr q"
    and "\<not> route_automatic route" and "initiate_answer sdk route h = Inr txs"
    and "fetch_answer sdk route h = Inl x"
  shows "tokenTransfer sdk route rt h =
           Some (Inl (Raised x),
                 before_fetch route @ [FetchAttestation (details route) 60000])"
  using assms
  by (subst tokenTransfer.simps) (simp add: io_defs transfer_answer_defs Let_def)

lemma run_complete_rejected:
  assumes "new_answer sdk route h = Inr u" and "quote_answer sdk route h = Inr q"
    and "\<not> route_automatic route" and "initiate_answer sdk route h = Inr txs"
    and "fetch_answer sdk route h = Inr ats" and "complete_answer sdk route h = Inl x"
  shows "tokenTransfer sdk route rt h =
           Some (Inl (Raised x),
                 before_complete route @
                 [CompleteTransfer (details route) (signer (destination route))])"
  using assms
  by (subst tokenTransfer.simps) (simp add: io_defs transfer_answer_defs Let_def)

lemma run_completed:
  assumes "new_answer sdk route h = Inr u" and "quote_answer sdk route h = Inr q"
    and "\<not> route_automatic route" and "initiate_answer sdk route h = Inr txs"
    and "fetch_answer sdk route h = Inr ats" and "complete_answer sdk route h = Inr dts"
    and "rt \<noteq> Some True"
  shows "tokenTransfer sdk route rt h =
           Some (Inr \<lparr> transfer = details route, srcTxids = txs, attestIds = ats,
                       destTxids = dts \<rparr>,
                 completed_events route)"
  using assms
  by (subst tokenTransfer.simps) (simp add: io_defs transfer_answer_defs Let_def)

lemma run_second_leg:
  assumes "new_answer sdk route h = Inr u" and "quote_answer sdk route h = Inr q"
    and "\<not> route_automatic route" and "initiate_answer sdk route h = Inr txs"
    and "fetch_answer sdk route h = Inr ats" and "complete_answer sdk route h = Inr dts"
  shows "tokenTransfer sdk route (Some True) h =
           (case tokenTransfer sdk (second_leg route q) None (h @ completed_events route) of
              None \<Rightarrow> None
            | Some (r, es) \<Rightarrow> Some (r, completed_events route @ es))"
  using assms
  by (subst tokenTransfer.simps)
     (simp add: io_defs transfer_answer_defs Let_def split: option.split)

text \<open>Every run takes exactly one of the eight paths above.\<close>

lemma run_paths [case_names new_rejected quote_rejected insufficient initiate_rejected
    automatic fetch_rejected complete_rejected completed]:
  obtains
    x where "new_answer sdk route h = Inl x"
  | u x where "new_answer sdk route h = Inr u" "quote_answer sdk route h = Inl x"
  | u q where "new_answer sdk route h = Inr u" "quote_answer sdk route h = Inr q"
      "route_automatic route" "ta_amount (destinationToken q) < 0"
  | u q x where "new_answer sdk route h = Inr u" "quote_answer sdk route h = Inr q"
      "\<not> (route_automatic route \<and> ta_amount (destinationToken q) < 0)"
      "initiate_answer sdk route h = Inl x"
  | u q txs where "new_answer sdk route h = Inr u" "quote_answer sdk route h = Inr q"
      "route_automatic route" "\<not> ta_amount (destinationToken q) < 0"
      "initiate_answer sdk route h = Inr txs"
  | u q txs x where "new_answer sdk route h = Inr u" "quote_answer sdk route h = Inr q"
      "\<not> route_automatic route" "initiate_answer sdk route h = Inr txs"
      "fetch_answer sdk route h = Inl x"
  | u q txs ats x where "new_answer sdk route h = Inr u" "quote_answer sdk route h = Inr q"
      "\<not> route_automatic route" "initiate_answer sdk route h = Inr txs"
      "fetch_answer sdk route h = Inr ats" "complete_answer sdk route h = Inl x"
  | u q txs ats dts where "new_answer sdk route h = Inr u" "quote_answer sdk route h = Inr q"
      "\<not> route_automatic route" "initiate_answer sdk route h = Inr txs"
      "fetch_answer sdk route h = Inr ats" "complete_answer sdk route h = Inr dts"
proof (cases "new_answer sdk route h")
  case (Inl x)
  then show ?thesis by (rule that(1))
next
  case new: (Inr u)
  show ?thesis
  proof (cases "quote_answer sdk route h")
    case (Inl x)
    with new show ?thesis by (rule that(2))
  next
    case quote: (Inr q)
    show ?thesis
    proof (cases "route_automatic route \<and> ta_amount (destinationToken q) < 0")
      case True
      with new quote show ?thesis using that(3) by blast
    next
      case affordable: False
      show ?thesis
      proof (cases "initiate_answer sdk route h")
        case (Inl x)
        with new quote affordable show ?thesis using that(4) by blast
      next
        case initiate: (Inr txs)
        show ?thesis
        proof (cases "route_automatic route")
          case True
          with new quote affordable initiate show ?thesis using that(5) by blast
        next
          case manual: False
          show ?thesis
          proof (cases "fetch_answer sdk route h")
            case (Inl x)
            with new quote manual initiate show ?thesis using that(6) by blast
          next
            case fetch: (Inr ats)
            show ?thesis
            proof (cases "complete_answer sdk route h")
              case (Inl x)
              with new quote manual initiate fetch show ?thesis using that(7) by blast
            next
              case (Inr dts)
              with new quote manual initiate fetch show ?thesis using that(8) by blast
            qed
          qed
        qed
      qed
    qed
  qed
qed

lemma completes_withD:
  assumes "completes_with sdk route h q"
  obtains u txs ats dts where "new_answer sdk route h = Inr u" "quote_answer sdk route h = Inr q"
      "\<not> route_automatic route" "initiate_answer sdk route h = Inr txs"
      "fetch_answer sdk route h = Inr ats" "complete_answer sdk route h = Inr dts"
  using assms unfolding completes_with_def
  by (cases "new_answer sdk route h"; cases "initiate_answer sdk route h";
      cases "fetch_answer sdk route h"; cases "complete_answer sdk route h") auto

text \<open>
  Only a run with \<open>roundTrip = true\<close> whose first leg completes all three steps
  depends on \<open>roundTrip\<close>.
\<close>

lemma run_without_second_leg:
  assumes "rt \<noteq> Some True \<or> (\<forall>q. \<not> completes_with sdk route h q)"
  shows "tokenTransfer sdk route rt h = tokenTransfer sdk route None h"
proof (cases sdk route h rule: run_paths)
  case new_rejected
  then show ?thesis by (simp add: run_new_rejected)
next
  case quote_rejected
  then show ?thesis by (simp add: run_quote_rejected)
next
  case insufficient
  then show ?thesis by (simp add: run_insufficient)
next
  case initiate_rejected
  then show ?thesis by (simp add: run_initiate_rejected)
next
  case automatic
  then show ?thesis by (simp add: run_automatic)
next
  case fetch_rejected
  then show ?thesis by (simp add: run_fetch_rejected)
next
  case complete_rejected
  then show ?thesis by (simp add: run_complete_rejected)
next
  case (completed u q txs ats dts)
  then have "completes_with sdk route h q"
    by (simp add: completes_with_def)
  with assms have rt: "rt \<noteq> Some True" by blast
  have "tokenTransfer sdk route rt h = 
          Some (Inr \<lparr> transfer = details route, srcTxids = txs, attestIds = ats,
                      destTxids = dts \<rparr>, completed_events route)"
    using completed rt by (rule run_completed)
  moreover have "tokenTransfer sdk route None h = 
          Some (Inr \<lparr> transfer = details route, srcTxids = txs, attestIds = ats,
                      destTxids = dts \<rparr>, completed_events route)"
    using completed by (rule run_completed) simp
  ultimately show ?thesis by simp
qed

text \<open>What every run without a second leg looks like.\<close>

lemma single_run:
  assumes "rt \<noteq> Some True"
  shows "\<exists>r es. tokenTransfer sdk route rt h = Some (r, NewTokenTransfer (details route) # es) \<and>
           filter is_transfer_start es = [] \<and>
           quoted_first q0 (NewTokenTransfer (details route) # es) \<and>
           (\<forall>x. r = Inr x \<longrightarrow> transfer x = details route)"
proof (cases sdk route h rule: run_paths)
  case new_rejected
  from run_new_rejected [OF this, of rt] show ?thesis
    by (simp add: transfer_answer_defs)
next
  case quote_rejected
  from run_quote_rejected [OF this, of rt] show ?thesis
    by (simp add: transfer_answer_defs)
next
  case insufficient
  from run_insufficient [OF this, of rt] show ?thesis
    by (simp add: transfer_answer_defs)
next
  case initiate_rejected
  from run_initiate_rejected [OF this, of rt] show ?thesis
    by (simp add: transfer_answer_defs)
next
  case automatic
  from run_automatic [OF this, of rt] show ?thesis
    by (simp add: transfer_answer_defs)
next
  case fetch_rejected
  from run_fetch_rejected [OF this, of rt] show ?thesis
    by (simp add: transfer_answer_defs)
next
  case complete_rejected
  from run_complete_rejected [OF this, of rt] show ?thesis
    by (simp add: transfer_answer_defs)
next
  case completed
  from run_completed [OF this assms] show ?thesis
    by (simp add: transfer_answer_defs)
qed

lemma completed_events_shape:
  "\<exists>es. completed_events route = NewTokenTransfer (details route) # es \<and>
        filter is_transfer_start es = [] \<and>
        (\<forall>q0 es'. quoted_first q0 (completed_events route @ NewTokenTransfer d' # es') =
            quoted_first None es')"
  by (simp add: transfer_answer_defs)

text \<open>
  Every run: either it is the run without a second leg, or the first leg completes
  and the run is the completed first leg followed by the second leg's run.
\<close>

lemma run_shape:
  "tokenTransfer sdk route rt h = tokenTransfer sdk route None h \<or>
   (rt = Some True \<and>
    (\<exists>q r es. completes_with sdk route h q \<and>
       tokenTransfer sdk (second_leg route q) None (h @ completed_events route) = Some (r, es) \<and>
       tokenTransfer sdk route rt h = Some (r, completed_events route @ es)))"
proof (cases "rt = Some True \<and> (\<exists>q. completes_with sdk route h q)")
  case True
  then obtain q where rt: "rt = Some True" and q: "completes_with sdk route h q"
    by blast
  obtain r es where second:
    "tokenTransfer sdk (second_leg route q) None (h @ completed_events route) = Some (r, es)"
    using single_run [of None sdk "second_leg route q" "h @ completed_events route" None]
    by blast
  from q obtain u txs ats dts where "new_answer sdk route h = Inr u"
    "quote_answer sdk route h = Inr q" "\<not> route_automatic route"
    "initiate_answer sdk route h = Inr txs" "fetch_answer sdk route h = Inr ats"
    "complete_answer sdk route h = Inr dts"
    by (rule completes_withD)
  then have "tokenTransfer sdk route (Some True) h =
      (case tokenTransfer sdk (second_leg route q) None (h @ completed_events route) of
         None \<Rightarrow> None
       | Some (r, es) \<Rightarrow> Some (r, completed_events route @ es))"
    by (rule run_second_leg)
  with second have "tokenTransfer sdk route rt h = Some (r, completed_events route @ es)"
    by (simp add: rt)
  with q second have
    "\<exists>q r es. completes_with sdk route h q \<and>
       tokenTransfer sdk (second_leg route q) None (h @ completed_events route) = Some (r, es) \<and>
       tokenTransfer sdk route rt h = Some (r, completed_events route @ es)"
    by (intro exI conjI)
  with rt show ?thesis by (intro disjI2 conjI)
next
  case False
  then have "rt \<noteq> Some True \<or> (\<forall>q. \<not> completes_with sdk route h q)" by blast
  then have "tokenTransfer sdk route rt h = tokenTransfer sdk route None h"
    by (rule run_without_second_leg)
  then show ?thesis by (rule disjI1)
qed

lemma second_leg_fields [simp]:
  "token (second_leg route q) = ta_token (destinationToken q)"
  "amount (second_leg route q) = ta_amount (destinationToken q)"
  "source (second_leg route q) = destination route"
  "destination (second_leg route q) = source route"
  "delivery (second_leg route q) = delivery route"
  "payload (second_leg route q) = payload route"
  by (simp_all add: second_leg_def)

lemma second_leg_automatic [simp]:
  "route_automatic (second_leg route q) = route_automatic route"
  "route_nativeGas (second_leg route q) = route_nativeGas route"
  by (simp_all add: route_automatic_def route_nativeGas_def)

text \<open>
  Every run returns. Its trace passes the quote-before-submission scan, and it holds
  one transfer start, or two when \<open>roundTrip\<close> is set and the first leg completed.
\<close>

lemma any_run:
  "\<exists>r es. tokenTransfer sdk route rt h = Some (r, es) \<and> quoted_first q0 es \<and>
     (filter is_transfer_start es = [NewTokenTransfer (details route)] \<or>
      (rt = Some True \<and> \<not> route_automatic route \<and>
       (\<exists>q. completes_with sdk route h q \<and>
          filter is_transfer_start es =
            [NewTokenTransfer (details route), NewTokenTransfer (details (second_leg route q))])))"
proof -
  consider
    (single) "tokenTransfer sdk route rt h = tokenTransfer sdk route None h"
  | (double) q r es2 where "rt = Some True" "completes_with sdk route h q"
      "tokenTransfer sdk (second_leg route q) None (h @ completed_events route) = Some (r, es2)"
      "tokenTransfer sdk route rt h = Some (r, completed_events route @ es2)"
    using run_shape [of sdk route rt h] by blast
  then show ?thesis
  proof cases
    case single
    obtain r es where
      "tokenTransfer sdk route None h = Some (r, NewTokenTransfer (details route) # es)"
      "filter is_transfer_start es = []"
      "quoted_first q0 (NewTokenTransfer (details route) # es)"
      using single_run [of None sdk route h q0] by blast
    with single show ?thesis by simp
  next
    case (double q r es2)
    obtain r' es' where second:
      "tokenTransfer sdk (second_leg route q) None (h @ completed_events route) =
         Some (r', NewTokenTransfer (details (second_leg route q)) # es')"
      "filter is_transfer_start es' = []"
      "quoted_first None (NewTokenTransfer (details (second_leg route q)) # es')"
      using single_run [of None sdk "second_leg route q" "h @ completed_events route" None]
      by blast
    with double(3) have es2: "es2 = NewTokenTransfer (details (second_leg route q)) # es'"
      by simp
    obtain es1 where first: "completed_events route = NewTokenTransfer (details route) # es1"
      "filter is_transfer_start es1 = []"
      "\<forall>q0 es'. quoted_first q0
          (completed_events route @ NewTokenTransfer (details (second_leg route q)) # es') =
          quoted_first None es'"
      using completed_events_shape [of route "details (second_leg route q)"] by blast
    have manual: "\<not> route_automatic route"
      using double(2) by (simp add: completes_with_def)
    have "quoted_first q0 (completed_events route @ es2)"
      using first(3) second(3) by (simp add: es2)
    moreover have "filter is_transfer_start (completed_events route @ es2) =
        [NewTokenTransfer (details route), NewTokenTransfer (details (second_leg route q))]"
      using first(2) second(2) by (simp add: es2 first(1))
    ultimately show ?thesis
      using double(1,2,4) manual by blast
  qed
qed

lemma transfer_start_mem:
  assumes "NewTokenTransfer d \<in> set es"
  shows "NewTokenTransfer d \<in> set (filter is_transfer_start es)"
  using assms by simp

section \<open>Properties of \<open>tokenTransfer\<close>\<close>

text \<open>
  C1, as the code has it: for an automatic transfer whose quoted destination amount
  is negative, \<open>tokenTransfer\<close> throws the "amount requested is too low" error
  right after the quote. The only calls made are the creation of the transfer object
  and the quote: nothing is submitted and no transfer object is returned.
\<close>

theorem negative_quote_rejected:
  assumes "route_automatic route"
    and "\<not> isl (new_answer sdk route h)"
    and "quote_answer sdk route h = Inr q"
    and "ta_amount (destinationToken q) < 0"
  shows "tokenTransfer sdk route rt h =
           Some (Inl InsufficientAmount,
                 [NewTokenTransfer (details route),
                  QuoteTransfer (ss_chain (source route)) (ss_chain (destination route))
                    (details route)]) \<and>
         filter is_submission
           [NewTokenTransfer (details route),
            QuoteTransfer (ss_chain (source route)) (ss_chain (destination route))
              (details route)] = []"
proof -
  from assms(2) obtain u where "new_answer sdk route h = Inr u"
    by (cases "new_answer sdk route h") auto
  from run_insufficient [OF this assms(3) assms(1) assms(4), of rt] show ?thesis
    by (simp add: before_quote_def)
qed

theorem negative_quote_rejected_witness:
  "route_automatic (sample_route 10 True) \<and>
   \<not> isl (new_answer (sample_sdk 12) (sample_route 10 True) []) \<and>
   quote_answer (sample_sdk 12) (sample_route 10 True) [] =
     Inr (sample_quote 12 (details (sample_route 10 True))) \<and>
   ta_amount (destinationToken (sample_quote 12 (details (sample_route 10 True)))) = - 2 \<and>
   tokenTransfer (sample_sdk 12) (sample_route 10 True) (Some True) [] =
     Some (Inl InsufficientAmount,
           [NewTokenTransfer (details (sample_route 10 True)),
            QuoteTransfer ''Avalanche'' ''Solana'' (details (sample_route 10 True))])"
proof -
  have a: "route_automatic (sample_route 10 True)"
    by (simp add: route_automatic_def sample_route_def)
  have b: "\<not> isl (new_answer (sample_sdk 12) (sample_route 10 True) [])"
    by (simp add: new_answer_def sample_sdk_def)
  have c: "quote_answer (sample_sdk 12) (sample_route 10 True) [] =
      Inr (sample_quote 12 (details (sample_route 10 True)))"
    by (simp add: quote_answer_def sample_sdk_def)
  have d: "ta_amount (destinationToken (sample_quote 12 (details (sample_route 10 True)))) = - 2"
    by (simp add: sample_quote_def a) (simp add: details_def sample_route_def)
  have e: "ss_chain (source (sample_route 10 True)) = ''Avalanche''"
    "ss_chain (destination (sample_route 10 True)) = ''Solana''"
    by (simp_all add: sample_route_def avalanche_signer_def solana_signer_def)
  from d have "ta_amount (destinationToken (sample_quote 12 (details (sample_route 10 True)))) < 0"
    by simp
  from negative_quote_rejected [OF a b c this, of "Some True"] a b c d e
  show ?thesis by simp
qed

text \<open>
  C1 as stated fails at a quoted destination amount of exactly zero: with amount 12
  and relayer fee 12 the automatic transfer is quoted 0, passes the check of line 141
  and is submitted to the source chain.
\<close>

theorem zero_quote_is_submitted:
  "route_automatic (sample_route 12 True) \<and>
   quote_answer (sample_sdk 12) (sample_route 12 True) [] =
     Inr (sample_quote 12 (details (sample_route 12 True))) \<and>
   ta_amount (destinationToken (sample_quote 12 (details (sample_route 12 True)))) \<le> 0 \<and>
   tokenTransfer (sample_sdk 12) (sample_route 12 True) None [] =
     Some (Inr \<lparr> transfer = details (sample_route 12 True), srcTxids = [''0xsrc''],
                 attestIds = [], destTxids = [] \<rparr>,
           [NewTokenTransfer (details (sample_route 12 True)),
            QuoteTransfer ''Avalanche'' ''Solana'' (details (sample_route 12 True)),
            Log ''Starting transfer'',
            InitiateTransfer (details (sample_route 12 True)) (signer avalanche_signer),
            Log ''Started transfer: ''])"
proof -
  have a: "route_automatic (sample_route 12 True)"
    by (simp add: route_automatic_def sample_route_def)
  have b: "new_answer (sample_sdk 12) (sample_route 12 True) [] = Inr ()"
    by (simp add: new_answer_def sample_sdk_def)
  have c: "quote_answer (sample_sdk 12) (sample_route 12 True) [] =
      Inr (sample_quote 12 (details (sample_route 12 True)))"
    by (simp add: quote_answer_def sample_sdk_def)
  have d: "ta_amount (destinationToken (sample_quote 12 (details (sample_route 12 True)))) = 0"
    by (simp add: sample_quote_def a) (simp add: details_def sample_route_def)
  have e: "initiate_answer (sample_sdk 12) (sample_route 12 True) [] = Inr [''0xsrc'']"
    by (simp add: initiate_answer_def sample_sdk_def)
  have f: "ss_chain (source (sample_route 12 True)) = ''Avalanche''"
    "ss_chain (destination (sample_route 12 True)) = ''Solana''"
    "source (sample_route 12 True) = avalanche_signer"
    by (simp_all add: sample_route_def avalanche_signer_def solana_signer_def)
  from d have "\<not> ta_amount (destinationToken (sample_quote 12 (details (sample_route 12 True)))) < 0"
    by simp
  from run_automatic [OF b c a this e, of None] a c d f show ?thesis
    by (simp add: before_initiate_def before_quote_def)
qed



lemma sample_manual_completes:
  "completes_with (sample_sdk fee) (sample_route amt False) h
     (sample_quote fee (details (sample_route amt False)))"
  by (simp add: completes_with_def new_answer_def quote_answer_def initiate_answer_def
      fetch_answer_def complete_answer_def sample_sdk_def)
     (simp add: route_automatic_def sample_route_def)


text \<open>
  C3, as the code has it: a transfer with automatic delivery never calls
  \<open>fetchAttestation\<close> or \<open>completeTransfer\<close>, whatever \<open>roundTrip\<close> is. When it
  returns a transfer, that is right after the source-chain submission:
  \<open>destTxids\<close> and \<open>attestIds\<close> are empty and \<open>srcTxids\<close> is the list of ids
  the submission returned, which the code does not inspect.
\<close>

theorem automatic_stops_after_submission:
  assumes "route_automatic route"
  shows "\<exists>r es. tokenTransfer sdk route rt h = Some (r, es) \<and>
           filter is_redeem_step es = [] \<and>
           (\<forall>x. r = Inr x \<longrightarrow>
              destTxids x = [] \<and> attestIds x = [] \<and>
              initiate_answer sdk route h = Inr (srcTxids x) \<and>
              es = before_initiate route @
                   [InitiateTransfer (details route) (signer (source route)),
                    Log ''Started transfer: '']) \<and>
           (\<forall>txs. reaches_initiate sdk route h \<and> initiate_answer sdk route h = Inr txs \<longrightarrow>
              (\<exists>x. r = Inr x \<and> srcTxids x = txs))"
proof (cases sdk route h rule: run_paths)
  case new_rejected
  from run_new_rejected [OF this, of rt] new_rejected show ?thesis
    by (simp add: before_quote_def reaches_initiate_def)
next
  case quote_rejected
  from run_quote_rejected [OF this, of rt] quote_rejected show ?thesis
    by (simp add: before_quote_def reaches_initiate_def)
next
  case insufficient
  from run_insufficient [OF this, of rt] insufficient show ?thesis
    by (simp add: before_quote_def reaches_initiate_def)
next
  case initiate_rejected
  from run_initiate_rejected [OF this, of rt] initiate_rejected show ?thesis
    by (simp add: before_quote_def before_initiate_def)
next
  case automatic
  from run_automatic [OF this, of rt] automatic show ?thesis
    by (simp add: before_quote_def before_initiate_def)
next
  case fetch_rejected
  with assms show ?thesis by simp
next
  case complete_rejected
  with assms show ?thesis by simp
next
  case completed
  with assms show ?thesis by simp
qed

lemma automatic_route_is_automatic: "route_automatic (automatic_route 10)"
  by (simp add: route_automatic_def automatic_route_def)

lemma automatic_route_reaches_initiate:
  "route_automatic (automatic_route 10)"
  "reaches_initiate (sample_sdk 2) (automatic_route 10) []"
  "reaches_initiate (no_id_sdk 2) (automatic_route 10) []"
  "initiate_answer (sample_sdk 2) (automatic_route 10) [] = Inr [''0xsrc'']"
  "initiate_answer (no_id_sdk 2) (automatic_route 10) [] = Inr []"
  by (simp_all add: reaches_initiate_def new_answer_def quote_answer_def initiate_answer_def
      sample_sdk_def no_id_sdk_def sample_quote_def automatic_route_is_automatic)
     (simp_all add: details_def automatic_route_def)

theorem automatic_stops_after_submission_witness:
  "route_automatic (automatic_route 10) \<and>
   reaches_initiate (sample_sdk 2) (automatic_route 10) [] \<and>
   initiate_answer (sample_sdk 2) (automatic_route 10) [] = Inr [''0xsrc''] \<and>
   (\<exists>x es. tokenTransfer (sample_sdk 2) (automatic_route 10) (Some True) [] =
       Some (Inr x, es) \<and>
       filter is_redeem_step es = [] \<and> destTxids x = [] \<and> srcTxids x = [''0xsrc''])"
proof -
  note a = automatic_route_reaches_initiate(1)
    and b = automatic_route_reaches_initiate(2)
    and c = automatic_route_reaches_initiate(4)
  from automatic_stops_after_submission [OF a, of "sample_sdk 2" "Some True" "[]"]
  obtain r es where run:
    "tokenTransfer (sample_sdk 2) (automatic_route 10) (Some True) [] = Some (r, es)"
    "filter is_redeem_step es = []"
    "\<forall>x. r = Inr x \<longrightarrow> destTxids x = [] \<and> attestIds x = [] \<and>
        initiate_answer (sample_sdk 2) (automatic_route 10) [] = Inr (srcTxids x) \<and>
        es = before_initiate (automatic_route 10) @
             [InitiateTransfer (details (automatic_route 10))
                (signer (source (automatic_route 10))),
              Log ''Started transfer: '']"
    "\<forall>txs. reaches_initiate (sample_sdk 2) (automatic_route 10) [] \<and>
        initiate_answer (sample_sdk 2) (automatic_route 10) [] = Inr txs \<longrightarrow>
        (\<exists>x. r = Inr x \<and> srcTxids x = txs)"
    by (elim exE conjE) (rule that)
  from run(4) have "reaches_initiate (sample_sdk 2) (automatic_route 10) [] \<and>
      initiate_answer (sample_sdk 2) (automatic_route 10) [] = Inr [''0xsrc''] \<longrightarrow>
      (\<exists>x. r = Inr x \<and> srcTxids x = [''0xsrc''])"
    by (rule spec)
  with b c obtain x where x: "r = Inr x" "srcTxids x = [''0xsrc'']"
    by (elim impE exE conjE) (rule conjI)
  from run(3) x(1) have "destTxids x = []"
    by (elim allE impE conjE)
  with run(1,2) x have "tokenTransfer (sample_sdk 2) (automatic_route 10) (Some True) [] =
       Some (Inr x, es) \<and>
       filter is_redeem_step es = [] \<and> destTxids x = [] \<and> srcTxids x = [''0xsrc'']"
    by simp
  then have "\<exists>x es. tokenTransfer (sample_sdk 2) (automatic_route 10) (Some True) [] =
       Some (Inr x, es) \<and>
       filter is_redeem_step es = [] \<and> destTxids x = [] \<and> srcTxids x = [''0xsrc'']"
    by (intro exI)
  with a b c show ?thesis by (intro conjI)
qed

text \<open>
  C3 as stated fails where it says that \<open>sourceTxIds\<close> is non-empty once initiate
  succeeds: when the submission of an automatic transfer succeeds and returns no
  transaction id, \<open>tokenTransfer\<close> returns the transfer with \<open>srcTxids\<close> empty.
\<close>

theorem empty_submission_leaves_no_source_id:
  "route_automatic (automatic_route 10) \<and>
   reaches_initiate (no_id_sdk 2) (automatic_route 10) [] \<and>
   initiate_answer (no_id_sdk 2) (automatic_route 10) [] = Inr [] \<and>
   tokenTransfer (no_id_sdk 2) (automatic_route 10) None [] =
     Some (Inr \<lparr> transfer = details (automatic_route 10), srcTxids = [], attestIds = [],
                 destTxids = [] \<rparr>,
           [NewTokenTransfer (details (automatic_route 10)),
            QuoteTransfer ''Avalanche'' ''Solana'' (details (automatic_route 10)),
            Log ''Starting transfer'',
            InitiateTransfer (details (automatic_route 10)) (signer avalanche_signer),
            Log ''Started transfer: ''])"
proof -
  have new: "new_answer (no_id_sdk 2) (automatic_route 10) [] = Inr ()"
    by (simp add: new_answer_def no_id_sdk_def sample_sdk_def)
  have quote: "quote_answer (no_id_sdk 2) (automatic_route 10) [] =
      Inr (sample_quote 2 (details (automatic_route 10)))"
    by (simp add: quote_answer_def no_id_sdk_def sample_sdk_def)
  have affordable:
    "\<not> ta_amount (destinationToken (sample_quote 2 (details (automatic_route 10)))) < 0"
    by (simp add: sample_quote_def automatic_route_is_automatic)
       (simp add: details_def automatic_route_def)
  have route: "ss_chain (source (automatic_route 10)) = ''Avalanche''"
    "ss_chain (destination (automatic_route 10)) = ''Solana''"
    "source (automatic_route 10) = avalanche_signer"
    by (simp_all add: automatic_route_def avalanche_signer_def solana_signer_def)
  from run_automatic [OF new quote automatic_route_reaches_initiate(1) affordable
      automatic_route_reaches_initiate(5), of None]
    automatic_route_reaches_initiate route
  show ?thesis
    by (simp add: before_initiate_def before_quote_def)
qed

text \<open>
  C5: every call of \<open>tokenTransfer\<close> returns, and it starts one transfer or two:
  two only with \<open>roundTrip\<close> set, and the second leg, run without \<open>roundTrip\<close>,
  starts no further one.
\<close>

theorem round_trip_depth:
  "\<exists>r es. tokenTransfer sdk route rt h = Some (r, es) \<and>
     (length (filter is_transfer_start es) = 1 \<or> length (filter is_transfer_start es) = 2) \<and>
     (rt \<noteq> Some True \<longrightarrow> length (filter is_transfer_start es) = 1)"
  using any_run [of sdk route rt h None] by auto

theorem round_trip_depth_witness:
  "None \<noteq> Some True \<and>
   (\<exists>r es. tokenTransfer (sample_sdk 0)
        (second_leg (sample_route 1000000000 False)
           (sample_quote 0 (details (sample_route 1000000000 False)))) None
        (completed_events (sample_route 1000000000 False)) = Some (r, es) \<and>
      length (filter is_transfer_start es) = 1)"
  using round_trip_depth [of "sample_sdk 0"
      "second_leg (sample_route 1000000000 False)
         (sample_quote 0 (details (sample_route 1000000000 False)))" None
      "completed_events (sample_route 1000000000 False)"]
  by auto

text \<open>
  C8: in every run, with either delivery mode, each source-chain submission comes
  after the quote for the same transfer: the trace passes the scan \<open>quoted_first\<close>,
  which rejects an \<open>initiateTransfer\<close> whose details have not been quoted since the
  transfer object was created.
\<close>

theorem quote_precedes_submission:
  "\<exists>r es. tokenTransfer sdk route rt h = Some (r, es) \<and> quoted_first None es"
  using any_run [of sdk route rt h None] by blast

text \<open>
  C9: the route of the second leg has the \<open>delivery\<close> and \<open>payload\<close> of the first.
  Every transfer object a run creates, of the first or of the second leg, carries
  the first route's delivery mode, native gas and payload; and a run that creates
  two has manual delivery.
\<close>

theorem second_leg_keeps_delivery:
  "delivery (second_leg route q) = delivery route \<and>
   payload (second_leg route q) = payload route \<and>
   (\<forall>r es d. tokenTransfer sdk route rt h = Some (r, es) \<longrightarrow>
      NewTokenTransfer d \<in> set es \<longrightarrow>
      td_automatic d = route_automatic route \<and>
      td_nativeGas d = route_nativeGas route \<and>
      td_payload d = payload route) \<and>
   (\<forall>r es. tokenTransfer sdk route rt h = Some (r, es) \<longrightarrow>
      length (filter is_transfer_start es) = 2 \<longrightarrow> \<not> route_automatic route)"
proof (intro conjI allI impI)
  fix r es d
  assume run: "tokenTransfer sdk route rt h = Some (r, es)"
    and d: "NewTokenTransfer d \<in> set es"
  from any_run [of sdk route rt h None] run
  consider "filter is_transfer_start es = [NewTokenTransfer (details route)]"
    | q where "filter is_transfer_start es =
        [NewTokenTransfer (details route), NewTokenTransfer (details (second_leg route q))]"
    by auto
  then have "d = details route \<or> (\<exists>q. d = details (second_leg route q))"
  proof cases
    case 1
    with transfer_start_mem [OF d] show ?thesis by simp
  next
    case 2
    with transfer_start_mem [OF d] show ?thesis by auto
  qed
  then show "td_automatic d = route_automatic route"
    and "td_nativeGas d = route_nativeGas route"
    and "td_payload d = payload route"
    by (auto simp: details_def)
next
  fix r es
  assume run: "tokenTransfer sdk route rt h = Some (r, es)"
    and two: "length (filter is_transfer_start es) = 2"
  from any_run [of sdk route rt h None] run two
  show "\<not> route_automatic route"
    by auto
qed simp_all

lemma filter_completed_events:
  "filter is_transfer_start (completed_events route) = [NewTokenTransfer (details route)]"
  by (simp add: transfer_answer_defs)

lemma round_trip_hops:
  assumes "tokenTransfer sdk route rt h =
      Some (r, completed_events route @ NewTokenTransfer d # es)"
  shows "length (filter is_transfer_start (completed_events route @ NewTokenTransfer d # es)) = 2"
  using any_run [of sdk route rt h None] assms
  by (auto simp: filter_completed_events)

lemma sample_round_trip:
  "\<exists>r es. tokenTransfer (sample_sdk 0) (sample_route 1000000000 False) (Some True) [] =
      Some (r, completed_events (sample_route 1000000000 False) @
               NewTokenTransfer
                 (details (second_leg (sample_route 1000000000 False)
                    (sample_quote 0 (details (sample_route 1000000000 False))))) # es)"
proof -
  obtain u txs ats dts where
    "new_answer (sample_sdk 0) (sample_route 1000000000 False) [] = Inr u"
    "quote_answer (sample_sdk 0) (sample_route 1000000000 False) [] =
       Inr (sample_quote 0 (details (sample_route 1000000000 False)))"
    "\<not> route_automatic (sample_route 1000000000 False)"
    "initiate_answer (sample_sdk 0) (sample_route 1000000000 False) [] = Inr txs"
    "fetch_answer (sample_sdk 0) (sample_route 1000000000 False) [] = Inr ats"
    "complete_answer (sample_sdk 0) (sample_route 1000000000 False) [] = Inr dts"
    using sample_manual_completes by (rule completes_withD)
  from run_second_leg [OF this]
    single_run [of None "sample_sdk 0"
      "second_leg (sample_route 1000000000 False)
         (sample_quote 0 (details (sample_route 1000000000 False)))"
      "[] @ completed_events (sample_route 1000000000 False)" None]
  show ?thesis by auto
qed

theorem quote_precedes_submission_witness:
  "\<exists>r es. tokenTransfer (sample_sdk 0) (sample_route 1000000000 False) (Some True) [] =
      Some (r, es) \<and> quoted_first None es \<and>
      InitiateTransfer (details (sample_route 1000000000 False)) (signer avalanche_signer)
        \<in> set es"
proof -
  from sample_round_trip obtain r es where run:
    "tokenTransfer (sample_sdk 0) (sample_route 1000000000 False) (Some True) [] =
      Some (r, completed_events (sample_route 1000000000 False) @ es)"
    by blast
  have "InitiateTransfer (details (sample_route 1000000000 False)) (signer avalanche_signer)
      \<in> set (completed_events (sample_route 1000000000 False) @ es)"
    by (simp add: transfer_answer_defs) (simp add: sample_route_def)
  with run
    quote_precedes_submission [of "sample_sdk 0" "sample_route 1000000000 False" "Some True" "[]"]
  show ?thesis by auto
qed

theorem second_leg_keeps_delivery_witness:
  "(\<exists>r es. tokenTransfer (sample_sdk 0) (sample_route 1000000000 False) (Some True) [] =
      Some (r, es) \<and>
      NewTokenTransfer
        (details (second_leg (sample_route 1000000000 False)
           (sample_quote 0 (details (sample_route 1000000000 False))))) \<in> set es \<and>
      length (filter is_transfer_start es) = 2) \<and>
   td_automatic
     (details (second_leg (sample_route 1000000000 False)
        (sample_quote 0 (details (sample_route 1000000000 False))))) = False \<and>
   td_payload
     (details (second_leg (sample_route 1000000000 False)
        (sample_quote 0 (details (sample_route 1000000000 False))))) =
     Some [72, 101, 108, 108, 111, 32, 87, 111, 114, 108, 100, 33] \<and>
   \<not> route_automatic (sample_route 1000000000 False)"
proof -
  from sample_round_trip obtain r es where run:
    "tokenTransfer (sample_sdk 0) (sample_route 1000000000 False) (Some True) [] =
      Some (r, completed_events (sample_route 1000000000 False) @
               NewTokenTransfer
                 (details (second_leg (sample_route 1000000000 False)
                    (sample_quote 0 (details (sample_route 1000000000 False))))) # es)"
    by blast
  let ?es = "completed_events (sample_route 1000000000 False) @
               NewTokenTransfer
                 (details (second_leg (sample_route 1000000000 False)
                    (sample_quote 0 (details (sample_route 1000000000 False))))) # es"
  let ?d = "details (second_leg (sample_route 1000000000 False)
                    (sample_quote 0 (details (sample_route 1000000000 False))))"
  note T = second_leg_keeps_delivery [of "sample_route 1000000000 False"
      "sample_quote 0 (details (sample_route 1000000000 False))" "sample_sdk 0" "Some True" "[]"]
  have mem: "NewTokenTransfer ?d \<in> set ?es"
    by simp
  from T run mem have same: "td_automatic ?d = route_automatic (sample_route 1000000000 False)"
    "td_payload ?d = payload (sample_route 1000000000 False)"
    by blast+
  have two: "length (filter is_transfer_start ?es) = 2"
    using round_trip_hops [OF run] .
  from T run two have manual: "\<not> route_automatic (sample_route 1000000000 False)"
    by blast
  have "payload (sample_route 1000000000 False) = Some [72, 101, 108, 108, 111, 32, 87, 111, 114, 108, 100, 33]"
    by (simp add: sample_route_def)
  with same manual run mem two show ?thesis
    by auto
qed

section \<open>The attestation script, path by path\<close>

lemmas attest_trace_defs = before_dest_signer_def before_lookup_def before_orig_signer_def
  before_attest_send_def before_parse_def before_vaa_def before_submit_send_def before_poll_def

lemmas attest_answer_defs = lookup_answer_def attest_send_answer_def parse_answer_def
  vaa_answer_def submit_send_answer_def

lemma reaches_lookupD:
  assumes "reaches_lookup sdk h ds"
  obtains u v where "wormhole sdk h ''Testnet'' = Inr u"
    "getSigner sdk (h @ before_dest_signer) destChain (Some gasLimit) = Inr ds"
    "getTokenBridge sdk (h @ before_dest_signer @ [GetSigner destChain (Some gasLimit)])
       destChain = Inr v"
  using assms unfolding reaches_lookup_def
  by (cases "wormhole sdk h ''Testnet''";
      cases "getTokenBridge sdk (h @ before_dest_signer @ [GetSigner destChain (Some gasLimit)])
               destChain") auto

lemma reaches_attest_sendD:
  assumes "reaches_attest_send sdk h ds os"
  obtains u v e w where "wormhole sdk h ''Testnet'' = Inr u"
    "getSigner sdk (h @ before_dest_signer) destChain (Some gasLimit) = Inr ds"
    "getTokenBridge sdk (h @ before_dest_signer @ [GetSigner destChain (Some gasLimit)])
       destChain = Inr v"
    "lookup_answer sdk h = Inl e"
    "getSigner sdk (h @ before_orig_signer) origChain None = Inr os"
    "getTokenBridge sdk (h @ before_orig_signer @ [GetSigner origChain None]) origChain = Inr w"
proof -
  from assms have lookup: "reaches_lookup sdk h ds"
    and rest: "isl (lookup_answer sdk h)"
      "getSigner sdk (h @ before_orig_signer) origChain None = Inr os"
      "\<not> isl (getTokenBridge sdk (h @ before_orig_signer @ [GetSigner origChain None]) origChain)"
    by (simp_all add: reaches_attest_send_def)
  from rest(1) obtain e where "lookup_answer sdk h = Inl e"
    by (cases "lookup_answer sdk h") auto
  moreover from rest(3) obtain w where
    "getTokenBridge sdk (h @ before_orig_signer @ [GetSigner origChain None]) origChain = Inr w"
    by (cases "getTokenBridge sdk (h @ before_orig_signer @ [GetSigner origChain None]) origChain")
       auto
  ultimately show ?thesis
    using lookup rest(2) that by (elim reaches_lookupD) blast
qed

lemma script_already_wrapped:
  assumes "reaches_lookup sdk h ds" and "lookup_answer sdk h = Inr wrapped"
  shows "createWrapped sdk h =
           Some (Inr (Some \<lparr> wa_chain = destChain, wa_address = wrapped \<rparr>),
                 before_lookup @
                 [GetWrappedAsset destChain tokenId,
                  Log (''Token already wrapped on '' @ destChain @ ''. Skipping attestation.'')])"
  using assms
  by (elim reaches_lookupD)
     (simp add: createWrapped_def io_defs attest_trace_defs attest_answer_defs)

lemma script_send_rejected:
  assumes "reaches_attest_send sdk h ds os" and "attest_send_answer sdk h os = Inl x"
  shows "createWrapped sdk h =
           Some (Inl (Raised x), before_attest_send os @ [SignSendWait origChain os])"
  using assms
  by (elim reaches_attest_sendD)
     (simp add: createWrapped_def io_defs attest_trace_defs attest_answer_defs)


lemma script_parse_rejected:
  assumes "reaches_attest_send sdk h ds os" and "attest_send_answer sdk h os = Inr (t # ts)"
    and "parse_answer sdk h os (tx_txid t) = Inl x"
  shows "createWrapped sdk h =
           Some (Inl (Raised x),
                 before_parse os @ [ParseTransaction origChain (tx_txid t)])"
  using assms
  by (elim reaches_attest_sendD)
     (simp add: createWrapped_def io_defs attest_trace_defs attest_answer_defs first_of_def
        Let_def)



lemma script_vaa_missing:
  assumes "reaches_attest_send sdk h ds os" and "attest_send_answer sdk h os = Inr (t # ts)"
    and "parse_answer sdk h os (tx_txid t) = Inr (m # ms)"
    and "vaa_answer sdk h os (tx_txid t) m = Inr None"
  shows "createWrapped sdk h =
           Some (Inl VaaNotFound,
                 before_vaa os (tx_txid t) @
                 [GetVaa (Some m) ''TokenBridge:AttestMeta'' timeout])"
  using assms
  by (elim reaches_attest_sendD)
     (simp add: createWrapped_def wh_getVaa_def io_defs attest_trace_defs attest_answer_defs
        Let_def first_of_def)



section \<open>The polling loop\<close>

lemma poll_answer_shift: "poll_answer sdk (h @ retry_events) n = poll_answer sdk h (Suc n)"
  by (simp add: poll_answer_def)

lemma waitForIt_found:
  assumes "poll_answer sdk h 0 = Inr w"
  shows "waitForIt sdk h =
           Some (Inr \<lparr> wa_chain = destChain, wa_address = w \<rparr>,
                 [GetWrappedAsset destChain tokenId])"
  using assms by (subst waitForIt.simps) (simp add: poll_answer_def)

lemma waitForIt_retry:
  assumes "isl (poll_answer sdk h 0)"
  shows "waitForIt sdk h =
           Option.bind (waitForIt sdk (h @ retry_events))
             (\<lambda>(r, es). Some (r, retry_events @ es))"
  using assms
  by (subst waitForIt.simps) (cases "getWrappedAsset sdk h destChain tokenId";
      simp add: poll_answer_def)

lemma waitForIt_returns:
  assumes "\<forall>k<n. isl (poll_answer sdk h k)" and "poll_answer sdk h n = Inr w"
  shows "waitForIt sdk h =
           Some (Inr \<lparr> wa_chain = destChain, wa_address = w \<rparr>,
                 polls n @ [GetWrappedAsset destChain tokenId])"
  using assms
proof (induction n arbitrary: h)
  case 0
  then show ?case by (simp add: waitForIt_found)
next
  case (Suc n)
  from Suc.prems(1) have first: "isl (poll_answer sdk h 0)"
    by blast
  from Suc.prems(1) have "\<forall>k<n. isl (poll_answer sdk (h @ retry_events) k)"
    by (simp add: poll_answer_shift)
  moreover from Suc.prems(2) have "poll_answer sdk (h @ retry_events) n = Inr w"
    by (simp add: poll_answer_shift)
  ultimately have "waitForIt sdk (h @ retry_events) =
      Some (Inr \<lparr> wa_chain = destChain, wa_address = w \<rparr>,
            polls n @ [GetWrappedAsset destChain tokenId])"
    by (rule Suc.IH)
  with waitForIt_retry [OF first] show ?case
    by simp
qed

lemma waitForIt_only_if:
  assumes "waitForIt sdk h = Some y"
  shows "(\<exists>n. \<not> isl (poll_answer sdk h n)) \<and> \<not> isl (fst y)"
proof (rule waitForIt.raw_induct
    [where P = "\<lambda>sdk h y. (\<exists>n. \<not> isl (poll_answer sdk h n)) \<and> \<not> isl (fst y)"])
  show "waitForIt sdk h = Some y" by (rule assms)
next
  fix loop :: "attest_sdk \<Rightarrow> WrappedAsset io" and sdk h y
  assume IH: "\<And>s h' y'. loop s h' = Some y' \<Longrightarrow>
      (\<exists>n. \<not> isl (poll_answer s h' n)) \<and> \<not> isl (fst y')"
    and body: "(case getWrappedAsset sdk h destChain tokenId of
        Inl e \<Rightarrow>
          Option.bind (loop sdk (h @ retry_events))
            (\<lambda>(r, es). Some (r, retry_events @ es))
      | Inr wrapped \<Rightarrow>
          Some (Inr \<lparr> wa_chain = destChain, wa_address = wrapped \<rparr>,
                [GetWrappedAsset destChain tokenId])) = Some y"
  show "(\<exists>n. \<not> isl (poll_answer sdk h n)) \<and> \<not> isl (fst y)"
  proof (cases "getWrappedAsset sdk h destChain tokenId")
    case (Inr w)
    then have "\<not> isl (poll_answer sdk h 0)"
      by (simp add: poll_answer_def)
    with body Inr show ?thesis by auto
  next
    case (Inl e)
    with body obtain y' where y': "loop sdk (h @ retry_events) = Some y'"
      "y = (fst y', retry_events @ snd y')"
      by (auto simp: bind_eq_Some_conv)
    from IH [OF y'(1)] obtain n where
      "\<not> isl (poll_answer sdk (h @ retry_events) n)" and right: "\<not> isl (fst y')"
      by blast
    then have "\<not> isl (poll_answer sdk h (Suc n))"
      by (simp add: poll_answer_shift)
    with y'(2) right show ?thesis by auto
  qed
qed

lemma sleeps_of_polls: "filter is_sleep (polls n) = replicate n (Sleep 2000)"
  by (induction n) (simp_all add: retry_events_def)

text \<open>
  C6: the loop looks the wrapped asset up, and after each lookup that finds nothing
  it sleeps 2000 ms and looks again. It returns exactly when some lookup succeeds,
  with the destination chain and the address of the first lookup that did, after as
  many sleeps as lookups failed; when every lookup fails it never returns. (The
  script has no way to cancel the loop short of ending the process.)
\<close>

theorem polling_returns_iff_found:
  "(\<forall>n w. (\<forall>k<n. isl (poll_answer sdk h k)) \<and> poll_answer sdk h n = Inr w \<longrightarrow>
      waitForIt sdk h =
        Some (Inr \<lparr> wa_chain = destChain, wa_address = w \<rparr>,
              polls n @ [GetWrappedAsset destChain tokenId]) \<and>
      filter is_sleep (polls n) = replicate n (Sleep 2000)) \<and>
   ((\<forall>n. isl (poll_answer sdk h n)) \<longrightarrow> waitForIt sdk h = None) \<and>
   ((waitForIt sdk h \<noteq> None) = (\<exists>n. \<not> isl (poll_answer sdk h n)))"
proof (intro conjI allI impI)
  fix n w
  assume "(\<forall>k<n. isl (poll_answer sdk h k)) \<and> poll_answer sdk h n = Inr w"
  then show "waitForIt sdk h =
        Some (Inr \<lparr> wa_chain = destChain, wa_address = w \<rparr>,
              polls n @ [GetWrappedAsset destChain tokenId])"
    by (simp add: waitForIt_returns)
next
  fix n
  show "filter is_sleep (polls n) = replicate n (Sleep 2000)"
    by (rule sleeps_of_polls)
next
  assume "\<forall>n. isl (poll_answer sdk h n)"
  with waitForIt_only_if [of sdk h] show "waitForIt sdk h = None"
    by (cases "waitForIt sdk h") auto
next
  show "(waitForIt sdk h \<noteq> None) = (\<exists>n. \<not> isl (poll_answer sdk h n))"
  proof
    assume "waitForIt sdk h \<noteq> None"
    with waitForIt_only_if [of sdk h] show "\<exists>n. \<not> isl (poll_answer sdk h n)"
      by auto
  next
    assume found: "\<exists>n. \<not> isl (poll_answer sdk h n)"
    define n where "n = (LEAST n. \<not> isl (poll_answer sdk h n))"
    from found have "\<not> isl (poll_answer sdk h n)"
      unfolding n_def by (rule LeastI_ex)
    then obtain w where "poll_answer sdk h n = Inr w"
      by (cases "poll_answer sdk h n") auto
    moreover have "\<forall>k<n. isl (poll_answer sdk h k)"
      unfolding n_def using not_less_Least by blast
    ultimately show "waitForIt sdk h \<noteq> None"
      by (simp add: waitForIt_returns)
  qed
qed

theorem polling_returns_iff_found_witness:
  "isl (poll_answer (sample_attest_sdk (registered_after 2) [] [] None) [] 0) \<and>
   isl (poll_answer (sample_attest_sdk (registered_after 2) [] [] None) [] 1) \<and>
   poll_answer (sample_attest_sdk (registered_after 2) [] [] None) [] 2 = Inr ''wrapped'' \<and>
   waitForIt (sample_attest_sdk (registered_after 2) [] [] None) [] =
     Some (Inr \<lparr> wa_chain = destChain, wa_address = ''wrapped'' \<rparr>,
           retry_events @ retry_events @ [GetWrappedAsset destChain tokenId]) \<and>
   (\<forall>n. isl (poll_answer (sample_attest_sdk never_registered [] [] None) [] n)) \<and>
   waitForIt (sample_attest_sdk never_registered [] [] None) [] = None"
proof -
  let ?found = "sample_attest_sdk (registered_after 2) [] [] None"
  let ?never = "sample_attest_sdk never_registered [] [] None"
  have two: "polls 2 = retry_events @ retry_events" "polls 1 = retry_events"
    by (simp_all add: numeral_2_eq_2)
  have a: "isl (poll_answer ?found [] 0)" "isl (poll_answer ?found [] 1)"
    "poll_answer ?found [] 2 = Inr ''wrapped''"
    by (simp_all add: poll_answer_def sample_attest_sdk_def registered_after_def two
        retry_events_def)
  then have "\<forall>k<2. isl (poll_answer ?found [] k)"
    by (simp add: less_2_cases_iff)
  with a(3) polling_returns_iff_found [of ?found "[]"]
  have found: "waitForIt ?found [] =
     Some (Inr \<lparr> wa_chain = destChain, wa_address = ''wrapped'' \<rparr>,
           polls 2 @ [GetWrappedAsset destChain tokenId])"
    by blast
  have never: "\<forall>n. isl (poll_answer ?never [] n)"
    by (simp add: poll_answer_def sample_attest_sdk_def never_registered_def)
  with polling_returns_iff_found [of ?never "[]"] have "waitForIt ?never [] = None"
    by blast
  with a found never show ?thesis
    by (simp add: two)
qed

section \<open>Properties of the attestation script\<close>

lemma sample_reaches_lookup:
  "reaches_lookup (sample_attest_sdk lookup txs msgs v) h
     \<lparr> signer_chain = destChain, signer_address = ''key'' \<rparr>"
  by (simp add: reaches_lookup_def sample_attest_sdk_def)

lemma sample_reaches_attest_send:
  "reaches_attest_send (sample_attest_sdk never_registered txs msgs v) h
     \<lparr> signer_chain = destChain, signer_address = ''key'' \<rparr>
     \<lparr> signer_chain = origChain, signer_address = ''key'' \<rparr>"
  by (simp add: reaches_attest_send_def sample_reaches_lookup lookup_answer_def)
     (simp add: sample_attest_sdk_def never_registered_def)

text \<open>
  C4: when the wrapped-asset lookup of line 33 resolves, the script reports the token
  as already wrapped and returns the destination chain with the address found. Its
  trace ends with that report: \<open>createAttestation\<close> and \<open>submitAttestation\<close> are
  never called and no transaction is sent.
\<close>

theorem already_wrapped_skips_attestation:
  assumes "reaches_lookup sdk h ds" and "lookup_answer sdk h = Inr wrapped"
  shows "createWrapped sdk h =
           Some (Inr (Some \<lparr> wa_chain = destChain, wa_address = wrapped \<rparr>),
                 before_lookup @
                 [GetWrappedAsset destChain tokenId,
                  Log ''Token already wrapped on Solana. Skipping attestation.'']) \<and>
         filter is_attestation_step
           (before_lookup @
            [GetWrappedAsset destChain tokenId,
             Log ''Token already wrapped on Solana. Skipping attestation.'']) = [] \<and>
         filter is_submission
           (before_lookup @
            [GetWrappedAsset destChain tokenId,
             Log ''Token already wrapped on Solana. Skipping attestation.'']) = []"
  using script_already_wrapped [OF assms]
  by (simp add: attest_trace_defs destChain_def)

theorem already_wrapped_skips_attestation_witness:
  "reaches_lookup (sample_attest_sdk (registered_after 0) [] [] None) []
     \<lparr> signer_chain = destChain, signer_address = ''key'' \<rparr> \<and>
   lookup_answer (sample_attest_sdk (registered_after 0) [] [] None) [] = Inr ''wrapped'' \<and>
   createWrapped (sample_attest_sdk (registered_after 0) [] [] None) [] =
     Some (Inr (Some \<lparr> wa_chain = ''Solana'', wa_address = ''wrapped'' \<rparr>),
           [WormholeInit ''Testnet'',
            Log ''token ID for Avalanche: '',
            GetSigner ''Solana'' (Some 2500000),
            GetTokenBridge ''Solana'',
            GetWrappedAsset ''Solana'' tokenId,
            Log ''Token already wrapped on Solana. Skipping attestation.''])"
proof -
  have a: "reaches_lookup (sample_attest_sdk (registered_after 0) [] [] None) []
     \<lparr> signer_chain = destChain, signer_address = ''key'' \<rparr>"
    by (rule sample_reaches_lookup)
  have b: "lookup_answer (sample_attest_sdk (registered_after 0) [] [] None) [] = Inr ''wrapped''"
    by (simp add: lookup_answer_def sample_attest_sdk_def registered_after_def)
  from already_wrapped_skips_attestation [OF a b] a b show ?thesis
    by (simp add: attest_trace_defs destChain_def origChain_def gasLimit_def)
qed

text \<open>
  C7: the signed attestation is looked up once, for the first message parsed from
  the first transaction id that sending the attestation returned, whatever further
  ids and messages there are, with message type \<open>TokenBridge:AttestMeta\<close> and a
  timeout of 25 minutes. When \<open>getVaa\<close> answers \<open>null\<close> the script throws its
  "VAA not found" error: it does not look up again and does not go on to
  \<open>submitAttestation\<close>.
\<close>

theorem missing_vaa_is_reported:
  assumes "reaches_attest_send sdk h ds os"
    and "attest_send_answer sdk h os = Inr (t # ts)"
    and "parse_answer sdk h os (tx_txid t) = Inr (m # ms)"
    and "vaa_answer sdk h os (tx_txid t) m = Inr None"
  shows "createWrapped sdk h =
           Some (Inl VaaNotFound,
                 before_parse os @
                 [ParseTransaction origChain (tx_txid t),
                  Log ''Parsed Messages:'',
                  GetVaa (Some m) ''TokenBridge:AttestMeta'' 1500000]) \<and>
         filter is_vaa_lookup
           (before_parse os @
            [ParseTransaction origChain (tx_txid t),
             Log ''Parsed Messages:'',
             GetVaa (Some m) ''TokenBridge:AttestMeta'' 1500000]) =
           [GetVaa (Some m) ''TokenBridge:AttestMeta'' 1500000] \<and>
         filter is_attestation_step
           (before_parse os @
            [ParseTransaction origChain (tx_txid t),
             Log ''Parsed Messages:'',
             GetVaa (Some m) ''TokenBridge:AttestMeta'' 1500000]) =
           [CreateAttestation origChain (address tokenId) (parseAddress os)] \<and>
         VaaNotFound =
           ThrowError ''VAA not found after retries exhausted. Try extending the timeout.''"
  using script_vaa_missing [OF assms]
  by (simp add: attest_trace_defs timeout_def VaaNotFound_def)

theorem missing_vaa_is_reported_witness:
  "reaches_attest_send
     (sample_attest_sdk never_registered
        [\<lparr> tx_chain = ''Avalanche'', tx_txid = ''0xattest'' \<rparr>,
         \<lparr> tx_chain = ''Avalanche'', tx_txid = ''0xother'' \<rparr>]
        [WormholeMessageId ''Avalanche'' ''bridge'' 7, WormholeMessageId ''Avalanche'' ''bridge'' 8]
        None) []
     \<lparr> signer_chain = destChain, signer_address = ''key'' \<rparr>
     \<lparr> signer_chain = origChain, signer_address = ''key'' \<rparr> \<and>
   (\<exists>es. createWrapped
     (sample_attest_sdk never_registered
        [\<lparr> tx_chain = ''Avalanche'', tx_txid = ''0xattest'' \<rparr>,
         \<lparr> tx_chain = ''Avalanche'', tx_txid = ''0xother'' \<rparr>]
        [WormholeMessageId ''Avalanche'' ''bridge'' 7, WormholeMessageId ''Avalanche'' ''bridge'' 8]
        None) [] = Some (Inl VaaNotFound, es) \<and>
     filter is_vaa_lookup es =
       [GetVaa (Some (WormholeMessageId ''Avalanche'' ''bridge'' 7))
          ''TokenBridge:AttestMeta'' 1500000] \<and>
     ParseTransaction origChain ''0xattest'' \<in> set es)"
proof -
  let ?sdk = "sample_attest_sdk never_registered
        [\<lparr> tx_chain = ''Avalanche'', tx_txid = ''0xattest'' \<rparr>,
         \<lparr> tx_chain = ''Avalanche'', tx_txid = ''0xother'' \<rparr>]
        [WormholeMessageId ''Avalanche'' ''bridge'' 7, WormholeMessageId ''Avalanche'' ''bridge'' 8]
        None"
  let ?ds = "\<lparr> signer_chain = destChain, signer_address = ''key'' \<rparr>"
  let ?os = "\<lparr> signer_chain = origChain, signer_address = ''key'' \<rparr>"
  let ?t = "\<lparr> tx_chain = ''Avalanche'', tx_txid = ''0xattest'' \<rparr>"
  have a: "reaches_attest_send ?sdk [] ?ds ?os"
    by (rule sample_reaches_attest_send)
  have b: "attest_send_answer ?sdk [] ?os =
      Inr [?t, \<lparr> tx_chain = ''Avalanche'', tx_txid = ''0xother'' \<rparr>]"
    by (simp add: attest_send_answer_def sample_attest_sdk_def)
  have c: "parse_answer ?sdk [] ?os (tx_txid ?t) =
      Inr [WormholeMessageId ''Avalanche'' ''bridge'' 7, WormholeMessageId ''Avalanche'' ''bridge'' 8]"
    by (simp add: parse_answer_def sample_attest_sdk_def)
  have d: "vaa_answer ?sdk [] ?os (tx_txid ?t)
      (WormholeMessageId ''Avalanche'' ''bridge'' 7) = Inr None"
    by (simp add: vaa_answer_def sample_attest_sdk_def)
  from missing_vaa_is_reported [OF a b c d] a show ?thesis
    by simp
qed





end
